theory Spec2Isabelle
  imports Main
begin

section \<open>The command-line entry point \<^verbatim>\<open>src/parser/ply/main.py\<close>\<close>

text \<open>
  The script under verification, statement by statement:
  \<^verbatim>\<open>
   6  mdl_file = sys.argv[1]
   7  parsed = mdl.parseFile(mdl_file)
   9  if parsed:
  10      (commands, symbols) = parsed
  11  else:
  12      print("Failed to parse")
  14  wrapper = {
  15      "symbols": symbols,
  16      "commands": commands
  17  }
  19  print(json.dumps(wrapper))
  21  # debug mode
  22  if sys.argv[2] == "true":
  23      pprint.pprint(wrapper)
  \<close>
  The module \<^verbatim>\<open>mdl\<close> (the grammar), \<^verbatim>\<open>json\<close> and \<^verbatim>\<open>pprint\<close> are not part of the
  script. The parser, the JSON encoder of a single value and the pretty-printer's
  formatter are parameters of the model (the record \<open>externals\<close>); everything the
  script itself does is modelled: indexing \<^verbatim>\<open>sys.argv\<close>, the truth test, the tuple
  unpacking, the binding of the two global names, the dictionary display, the two
  writes to standard output and every exception that can leave the script.
\<close>

subsection \<open>Exceptions and the Python operations the script applies\<close>

datatype exn = IndexError | NameError string | ValueError | TypeError

text \<open>
  \<^verbatim>\<open>xs[i]\<close> for a literal, non-negative index: out of range raises \<^verbatim>\<open>IndexError\<close>.
  \<^verbatim>\<open>sys.argv[0]\<close> is the script's own name, so the first positional argument is at
  index 1.
\<close>

definition subscript :: "'a list \<Rightarrow> nat \<Rightarrow> exn + 'a" where
  "subscript xs i = (if i < length xs then Inr (xs ! i) else Inl IndexError)"

text \<open>
  What \<^verbatim>\<open>mdl.parseFile\<close> hands back, as far as the script looks at it: \<^verbatim>\<open>None\<close> or a
  tuple of any length whose items are values the script never inspects (type \<open>'v\<close>).
  The truth test and the unpacking are Python's: \<^verbatim>\<open>None\<close> and the empty tuple are
  falsy, every other tuple is truthy; a target list of two names accepts a tuple of
  exactly two items and raises \<^verbatim>\<open>ValueError\<close> on any other length (\<^verbatim>\<open>TypeError\<close> on
  \<^verbatim>\<open>None\<close>, which is not iterable).
\<close>

datatype 'v parsed = PyNone | PyTuple "'v list"

fun truthy :: "'v parsed \<Rightarrow> bool" where
  "truthy PyNone = False"
| "truthy (PyTuple xs) = (xs \<noteq> [])"

fun unpack2 :: "'v parsed \<Rightarrow> exn + 'v \<times> 'v" where
  "unpack2 (PyTuple [a, b]) = Inr (a, b)"
| "unpack2 (PyTuple xs) = Inl ValueError"
| "unpack2 PyNone = Inl TypeError"

text \<open>
  The two module-level names the branch at line 9 may or may not bind. Reading a name
  that was never bound raises \<^verbatim>\<open>NameError\<close>.
\<close>

record 'v globals =
  commands :: "'v option"
  symbols :: "'v option"

fun load_name :: "string \<Rightarrow> 'v option \<Rightarrow> exn + 'v" where
  "load_name n None = Inl (NameError n)"
| "load_name n (Some v) = Inr v"

subsection \<open>The external collaborators\<close>

text \<open>
  A dictionary with string keys keeps insertion order (Python 3.7 and later), so it is
  an association list.
\<close>

type_synonym 'v dict = "(string \<times> 'v) list"

record 'v externals =
  parseFile :: "string \<Rightarrow> 'v parsed"
  encode :: "'v \<Rightarrow> exn + string"
  pformat :: "'v dict \<Rightarrow> string"

text \<open>
  \<open>parseFile\<close> is \<^verbatim>\<open>mdl.parseFile\<close>. \<open>encode v\<close> is the text \<^verbatim>\<open>json.dumps\<close> produces for
  the single value \<open>v\<close>, or the exception it raises when \<open>v\<close> is not serialisable.
  \<open>pformat\<close> is \<^verbatim>\<open>pprint.pformat\<close> on a dictionary.
\<close>

subsection \<open>\<^verbatim>\<open>json.dumps\<close> on a dictionary with string keys\<close>

text \<open>
  With the default arguments of \<^verbatim>\<open>json.dumps\<close> (\<^verbatim>\<open>ensure_ascii=True\<close>, \<^verbatim>\<open>indent=None\<close>,
  separators \<^verbatim>\<open>', '\<close> and \<^verbatim>\<open>': '\<close>, \<^verbatim>\<open>sort_keys=False\<close>) a dictionary is written as
  \<^verbatim>\<open>{\<close>, the items in insertion order joined by \<^verbatim>\<open>', '\<close>, and \<^verbatim>\<open>}\<close>; an item is the quoted
  key, \<^verbatim>\<open>': '\<close> and the encoded value. A key is quoted by \<^verbatim>\<open>encode_basestring_ascii\<close>:
  the quote and the backslash are escaped, the five control characters with a short
  escape get it, every other character outside the printable ASCII range becomes
  \<^verbatim>\<open>\uXXXX\<close>. A \<open>char\<close> is a code point below 256.
\<close>

definition hex_digit :: "nat \<Rightarrow> char" where
  "hex_digit n = ''0123456789abcdef'' ! (n mod 16)"

definition escape_char :: "char \<Rightarrow> string" where
  "escape_char c =
    (if c = CHR 0x22 then [CHR 0x5C, CHR 0x22]
     else if c = CHR 0x5C then [CHR 0x5C, CHR 0x5C]
     else if c = CHR 0x08 then [CHR 0x5C, CHR ''b'']
     else if c = CHR 0x0C then [CHR 0x5C, CHR ''f'']
     else if c = CHR 0x0A then [CHR 0x5C, CHR ''n'']
     else if c = CHR 0x0D then [CHR 0x5C, CHR ''r'']
     else if c = CHR 0x09 then [CHR 0x5C, CHR ''t'']
     else if (0x20::nat) \<le> of_char c \<and> of_char c \<le> (0x7E::nat) then [c]
     else [CHR 0x5C, CHR ''u'', CHR ''0'', CHR ''0'',
           hex_digit (of_char c div 16), hex_digit (of_char c)])"

definition json_quote :: "string \<Rightarrow> string" where
  "json_quote s = [CHR 0x22] @ concat (map escape_char s) @ [CHR 0x22]"

fun join :: "string \<Rightarrow> string list \<Rightarrow> string" where
  "join sep [] = []"
| "join sep [x] = x"
| "join sep (x # y # ys) = x @ sep @ join sep (y # ys)"

text \<open>The items are encoded in order; the first value that fails raises.\<close>

fun json_items :: "('v \<Rightarrow> exn + string) \<Rightarrow> 'v dict \<Rightarrow> exn + string list" where
  "json_items enc [] = Inr []"
| "json_items enc ((k, v) # kvs) =
     (case enc v of
        Inl e \<Rightarrow> Inl e
      | Inr t \<Rightarrow>
          (case json_items enc kvs of
             Inl e \<Rightarrow> Inl e
           | Inr ts \<Rightarrow> Inr ((json_quote k @ '': '' @ t) # ts)))"

definition json_dumps :: "('v \<Rightarrow> exn + string) \<Rightarrow> 'v dict \<Rightarrow> exn + string" where
  "json_dumps enc d =
     (case json_items enc d of
        Inl e \<Rightarrow> Inl e
      | Inr ts \<Rightarrow> Inr (''{'' @ join '', '' ts @ ''}''))"

subsection \<open>The process: standard output, the external calls made, how it ended\<close>

datatype 'v call = ParseFile string | Dumps "'v dict" | Pprint "'v dict"

record 'v process =
  stdout :: string
  calls :: "'v call list"
  uncaught :: "exn option"

definition start :: "'v process" where
  "start = \<lparr>stdout = [], calls = [], uncaught = None\<rparr>"

definition called :: "'v call \<Rightarrow> 'v process \<Rightarrow> 'v process" where
  "called c p = p\<lparr>calls := calls p @ [c]\<rparr>"

text \<open>\<^verbatim>\<open>print(s)\<close> writes \<open>s\<close> and a newline to standard output.\<close>

definition py_print :: "string \<Rightarrow> 'v process \<Rightarrow> 'v process" where
  "py_print s p = p\<lparr>stdout := stdout p @ s @ [CHR 0x0A]\<rparr>"

text \<open>
  An exception nothing catches ends the script where it is raised: nothing more is
  written to standard output (the traceback goes to standard error).
\<close>

definition raise :: "exn \<Rightarrow> 'v process \<Rightarrow> 'v process" where
  "raise e p = p\<lparr>uncaught := Some e\<rparr>"

text \<open>
  The interpreter's exit status: 0 when the script runs to its end, 1 when an
  exception is left uncaught.
\<close>

definition exit_status :: "'v process \<Rightarrow> nat" where
  "exit_status p = (case uncaught p of None \<Rightarrow> 0 | Some e \<Rightarrow> 1)"

text \<open>\<^verbatim>\<open>pprint.pprint(d)\<close> writes \<^verbatim>\<open>pformat(d)\<close> and a newline to standard output.\<close>

definition pprint :: "'v externals \<Rightarrow> 'v dict \<Rightarrow> 'v process \<Rightarrow> 'v process" where
  "pprint ext d p = py_print (pformat ext d) (called (Pprint d) p)"

subsection \<open>The script\<close>

text \<open>Lines 9 to 12: the branch binds both names, or prints the diagnostic and binds none.\<close>

definition bind_names :: "'v parsed \<Rightarrow> 'v process \<Rightarrow> 'v process + 'v globals \<times> 'v process" where
  "bind_names parsed p =
     (if truthy parsed then
        (case unpack2 parsed of
           Inl e \<Rightarrow> Inl (raise e p)
         | Inr (c, s) \<Rightarrow> Inr (\<lparr>commands = Some c, symbols = Some s\<rparr>, p))
      else Inr (\<lparr>commands = None, symbols = None\<rparr>, py_print ''Failed to parse'' p))"

text \<open>
  Lines 14 to 17: the dictionary display evaluates its values left to right, so
  \<^verbatim>\<open>symbols\<close> is read before \<^verbatim>\<open>commands\<close>.
\<close>

definition build_wrapper :: "'v globals \<Rightarrow> exn + 'v dict" where
  "build_wrapper g =
     (case load_name ''symbols'' (symbols g) of
        Inl e \<Rightarrow> Inl e
      | Inr s \<Rightarrow>
          (case load_name ''commands'' (commands g) of
             Inl e \<Rightarrow> Inl e
           | Inr c \<Rightarrow> Inr [(''symbols'', s), (''commands'', c)]))"

text \<open>Line 19.\<close>

definition print_json :: "'v externals \<Rightarrow> 'v dict \<Rightarrow> 'v process \<Rightarrow> 'v process + 'v process" where
  "print_json ext wrapper p =
     (case json_dumps (encode ext) wrapper of
        Inl e \<Rightarrow> Inl (raise e (called (Dumps wrapper) p))
      | Inr t \<Rightarrow> Inr (py_print t (called (Dumps wrapper) p)))"

text \<open>Lines 22 and 23.\<close>

definition debug_mode :: "'v externals \<Rightarrow> string list \<Rightarrow> 'v dict \<Rightarrow> 'v process \<Rightarrow> 'v process" where
  "debug_mode ext argv wrapper p =
     (case subscript argv 2 of
        Inl e \<Rightarrow> raise e p
      | Inr flag \<Rightarrow> if flag = ''true'' then pprint ext wrapper p else p)"

text \<open>The whole script, from the first statement to the last.\<close>

definition main :: "'v externals \<Rightarrow> string list \<Rightarrow> 'v process" where
  "main ext argv =
     (case subscript argv 1 of
        Inl e \<Rightarrow> raise e start
      | Inr mdl_file \<Rightarrow>
          (let parsed = parseFile ext mdl_file;
               p1 = called (ParseFile mdl_file) start
           in case bind_names parsed p1 of
                Inl p \<Rightarrow> p
              | Inr (g, p2) \<Rightarrow>
                  (case build_wrapper g of
                     Inl e \<Rightarrow> raise e p2
                   | Inr wrapper \<Rightarrow>
                       (case print_json ext wrapper p2 of
                          Inl p \<Rightarrow> p
                        | Inr p3 \<Rightarrow> debug_mode ext argv wrapper p3))))"

subsection \<open>What is observed of a run\<close>

text \<open>
  The lines of a text, as a reader of standard output sees them: each newline ends a
  line, and characters after the last newline form a last, unterminated line.
\<close>

fun lines_from :: "string \<Rightarrow> string \<Rightarrow> string list" where
  "lines_from cur [] = (if cur = [] then [] else [cur])"
| "lines_from cur (c # cs) =
     (if c = CHR 0x0A then cur # lines_from [] cs else lines_from (cur @ [c]) cs)"

definition output_lines :: "string \<Rightarrow> string list" where
  "output_lines out = lines_from [] out"

fun is_parse :: "'v call \<Rightarrow> bool" where
  "is_parse (ParseFile path) = True"
| "is_parse (Dumps d) = False"
| "is_parse (Pprint d) = False"

fun is_pprint :: "'v call \<Rightarrow> bool" where
  "is_pprint (Pprint d) = True"
| "is_pprint (ParseFile path) = False"
| "is_pprint (Dumps d) = False"

text \<open>How often the run called the parser, and whether it wrote the debug rendering.\<close>

definition parser_calls :: "'v process \<Rightarrow> nat" where
  "parser_calls p = length (filter is_parse (calls p))"

definition debug_rendered :: "'v process \<Rightarrow> bool" where
  "debug_rendered p = list_ex is_pprint (calls p)"

text \<open>
  A parser that is a function of the file's contents: \<open>files path\<close> is the text stored
  at \<open>path\<close> (\<open>None\<close> when there is no such file), and \<open>grammar\<close> turns that into the
  parser's result.
\<close>

definition reading :: "(string option \<Rightarrow> 'v parsed) \<Rightarrow> (string \<Rightarrow> string option) \<Rightarrow> string \<Rightarrow> 'v parsed" where
  "reading grammar files path = grammar (files path)"

subsection \<open>A concrete parser, encoder and formatter for the instances\<close>

text \<open>
  Values are given by their JSON text. \<^verbatim>\<open>ok.mdl\<close> parses to a pair, \<^verbatim>\<open>set.mdl\<close> parses
  to a pair whose symbol table cannot be serialised, \<^verbatim>\<open>odd.mdl\<close> to a tuple of three
  items, and every other path is rejected with the empty tuple.
\<close>

definition example_parseFile :: "string \<Rightarrow> string parsed" where
  "example_parseFile path =
     (if path = ''ok.mdl'' then PyTuple [''[1, 2]'', ''{}'']
      else if path = ''set.mdl'' then PyTuple [''[]'', ''set()'']
      else if path = ''odd.mdl'' then PyTuple [''[]'', ''{}'', ''[]'']
      else PyTuple [])"

definition example_encode :: "string \<Rightarrow> exn + string" where
  "example_encode v = (if v = ''set()'' then Inl TypeError else Inr v)"

definition example_pformat :: "string dict \<Rightarrow> string" where
  "example_pformat d = concat (map (\<lambda>(k, v). k @ '' = '' @ v @ '';'') d)"

definition example_ext :: "string externals" where
  "example_ext =
     \<lparr>parseFile = example_parseFile, encode = example_encode, pformat = example_pformat\<rparr>"

definition example_grammar :: "string option \<Rightarrow> string parsed" where
  "example_grammar contents =
     (case contents of
        None \<Rightarrow> PyTuple []
      | Some t \<Rightarrow> if t = ''push'' then PyTuple [''[1, 2]'', ''{}''] else PyTuple [])"

definition disk_a :: "string \<Rightarrow> string option" where
  "disk_a path = (if path = ''ok.mdl'' then Some ''push'' else None)"

definition disk_b :: "string \<Rightarrow> string option" where
  "disk_b path =
     (if path = ''ok.mdl'' then Some ''push''
      else if path = ''other.mdl'' then Some ''pop'' else None)"

section \<open>Properties of the script\<close>

subsection \<open>Auxiliary facts\<close>

lemmas effect_defs = raise_def py_print_def called_def start_def

lemmas example_defs =
  example_ext_def example_parseFile_def example_encode_def example_pformat_def

lemmas run_defs =
  main_def Let_def subscript_def bind_names_def build_wrapper_def print_json_def
  debug_mode_def pprint_def json_dumps_def json_quote_def escape_char_def exit_status_def
  parser_calls_def debug_rendered_def

text \<open>The two keys of the wrapper need no escape.\<close>

lemma json_quote_symbols: \<open>json_quote ''symbols'' = ''"symbols"''\<close>
  by (simp add: json_quote_def escape_char_def)

lemma json_quote_commands: \<open>json_quote ''commands'' = ''"commands"''\<close>
  by (simp add: json_quote_def escape_char_def)

lemma json_dumps_wrapper:
  assumes "enc s = Inr S" and "enc c = Inr C"
  shows \<open>json_dumps enc [(''symbols'', s), (''commands'', c)] =
      Inr (''{"symbols": '' @ S @ '', "commands": '' @ C @ ''}'')\<close>
  using assms by (simp add: json_dumps_def json_quote_symbols json_quote_commands)

text \<open>A text without a newline, followed by a newline, is one line.\<close>

lemma lines_from_line:
  "CHR 0x0A \<notin> set l \<Longrightarrow> lines_from cur (l @ CHR 0x0A # rest) = (cur @ l) # lines_from [] rest"
  by (induction l arbitrary: cur) auto

lemma output_lines_first:
  "CHR 0x0A \<notin> set l \<Longrightarrow> output_lines (l @ CHR 0x0A # rest) = l # output_lines rest"
  using lines_from_line [of l "[]" rest] by (simp add: output_lines_def)

lemma output_lines_single:
  "CHR 0x0A \<notin> set l \<Longrightarrow> output_lines (l @ [CHR 0x0A]) = [l]"
  using output_lines_first [of l "[]"] by (simp add: output_lines_def)

text \<open>The debug check at the end of the script.\<close>

lemma debug_mode_off:
  "2 < length argv \<Longrightarrow> argv ! 2 \<noteq> ''true'' \<Longrightarrow> debug_mode ext argv w p = p"
  by (simp add: debug_mode_def subscript_def)

lemma debug_mode_on:
  "2 < length argv \<Longrightarrow> argv ! 2 = ''true'' \<Longrightarrow>
     debug_mode ext argv w p = py_print (pformat ext w) (called (Pprint w) p)"
  by (simp add: debug_mode_def subscript_def pprint_def)

lemma debug_mode_rendered:
  "debug_rendered (debug_mode ext argv w p) \<longleftrightarrow>
     debug_rendered p \<or> (2 < length argv \<and> argv ! 2 = ''true'')"
  by (auto simp add: debug_mode_def subscript_def pprint_def debug_rendered_def effect_defs)

text \<open>The run, path by path.\<close>

lemma main_no_path:
  "length argv < 2 \<Longrightarrow> main ext argv = raise IndexError start"
  by (simp add: main_def subscript_def)

lemma main_falsy:
  assumes "1 < length argv" and "\<not> truthy (parseFile ext (argv ! 1))"
  shows "main ext argv =
    raise (NameError ''symbols'')
      (py_print ''Failed to parse'' (called (ParseFile (argv ! 1)) start))"
  using assms by (simp add: main_def subscript_def bind_names_def build_wrapper_def)

lemma main_not_a_pair:
  assumes "1 < length argv" and "parseFile ext (argv ! 1) = PyTuple xs"
    and "xs \<noteq> []" and "length xs \<noteq> 2"
  shows "main ext argv = raise ValueError (called (ParseFile (argv ! 1)) start)"
proof -
  have "unpack2 (PyTuple xs) = Inl ValueError"
    using assms(3,4) by (cases "PyTuple xs" rule: unpack2.cases) auto
  then show ?thesis
    using assms by (simp add: main_def subscript_def bind_names_def)
qed

lemma main_pair:
  assumes "1 < length argv" and "parseFile ext (argv ! 1) = PyTuple [c, s]"
  shows "main ext argv =
    (case print_json ext [(''symbols'', s), (''commands'', c)]
            (called (ParseFile (argv ! 1)) start) of
       Inl p \<Rightarrow> p
     | Inr p \<Rightarrow> debug_mode ext argv [(''symbols'', s), (''commands'', c)] p)"
  using assms by (simp add: main_def subscript_def bind_names_def build_wrapper_def)

lemma print_json_ok:
  assumes "encode ext s = Inr S" and "encode ext c = Inr C"
  shows \<open>print_json ext [(''symbols'', s), (''commands'', c)] p =
    Inr (py_print (''{"symbols": '' @ S @ '', "commands": '' @ C @ ''}'')
           (called (Dumps [(''symbols'', s), (''commands'', c)]) p))\<close>
  using json_dumps_wrapper [of "encode ext" s S c C] assms by (simp add: print_json_def)

lemma main_pair_ok:
  assumes "1 < length argv" and "parseFile ext (argv ! 1) = PyTuple [c, s]"
    and "encode ext s = Inr S" and "encode ext c = Inr C"
  shows \<open>main ext argv =
    debug_mode ext argv [(''symbols'', s), (''commands'', c)]
      (py_print (''{"symbols": '' @ S @ '', "commands": '' @ C @ ''}'')
         (called (Dumps [(''symbols'', s), (''commands'', c)])
            (called (ParseFile (argv ! 1)) start)))\<close>
  by (simp add: main_pair [OF assms(1,2)] print_json_ok [OF assms(3,4)])

lemma main_pair_rendered:
  assumes "1 < length argv" and "parseFile ext (argv ! 1) = PyTuple [c, s]"
    and "encode ext s = Inr S" and "encode ext c = Inr C"
  shows "debug_rendered (main ext argv) \<longleftrightarrow> 2 < length argv \<and> argv ! 2 = ''true''"
proof -
  have "\<not> debug_rendered (py_print t (called (Dumps w) (called (ParseFile f) start)))"
    for t and w :: "'a dict" and f
    by (simp add: debug_rendered_def effect_defs)
  then show ?thesis
    by (simp add: main_pair_ok [OF assms] debug_mode_rendered)
qed

text \<open>
  Whenever a path is given, the parser is the first external call and it is not called
  again.
\<close>

lemma main_calls:
  assumes "1 < length argv"
  shows "\<exists>ds. calls (main ext argv) = ParseFile (argv ! 1) # ds \<and> filter is_parse ds = []"
  using assms
  by (auto simp add: main_def Let_def subscript_def bind_names_def build_wrapper_def
      print_json_def debug_mode_def pprint_def effect_defs
      split: sum.splits prod.splits option.splits)

lemma main_rendered_only_if:
  "debug_rendered (main ext argv) \<Longrightarrow> 2 < length argv \<and> argv ! 2 = ''true''"
  by (auto simp add: main_def Let_def subscript_def bind_names_def build_wrapper_def
      print_json_def debug_mode_def pprint_def debug_rendered_def effect_defs
      split: sum.splits prod.splits option.splits if_splits)

text \<open>
  The run depends on the parser only through its result for the path at
  \<^verbatim>\<open>sys.argv[1]\<close>.
\<close>

lemma main_cong:
  assumes "encode e1 = encode e2" and "pformat e1 = pformat e2"
    and "1 < length argv \<Longrightarrow> parseFile e1 (argv ! 1) = parseFile e2 (argv ! 1)"
  shows "main e1 argv = main e2 argv"
proof (cases "1 < length argv")
  case True
  have pj: "print_json e1 = print_json e2"
    using assms(1) by (intro ext) (simp add: print_json_def)
  have dm: "debug_mode e1 = debug_mode e2"
    using assms(2) by (intro ext) (simp add: debug_mode_def pprint_def split: sum.splits)
  show ?thesis
    unfolding main_def pj dm using assms(3) [OF True] True by (simp add: subscript_def)
next
  case False
  then show ?thesis
    by (simp add: main_def subscript_def)
qed

text \<open>What a successful run writes, whatever the debug flag.\<close>

lemma debug_mode_stdout:
  "stdout (debug_mode ext argv w p) =
     stdout p @ (if 2 < length argv \<and> argv ! 2 = ''true'' then pformat ext w @ [CHR 0x0A] else [])"
  by (simp add: debug_mode_def subscript_def pprint_def effect_defs)

lemma main_pair_stdout:
  assumes "1 < length argv" and "parseFile ext (argv ! 1) = PyTuple [c, s]"
    and "encode ext s = Inr S" and "encode ext c = Inr C"
  shows \<open>stdout (main ext argv) =
      ''{"symbols": '' @ S @ '', "commands": '' @ C @ ''}'' @ [CHR 0x0A]
        @ (if 2 < length argv \<and> argv ! 2 = ''true''
           then pformat ext [(''symbols'', s), (''commands'', c)] @ [CHR 0x0A] else [])\<close>
  by (simp add: main_pair_ok [OF assms] debug_mode_stdout) (simp add: effect_defs)

subsection \<open>The successful run\<close>

text \<open>
  Claim C1. When the parser returns a pair \<^verbatim>\<open>(commands, symbols)\<close> for the file named
  by the first argument, both values serialise, and the second argument is present
  and is not \<^verbatim>\<open>true\<close>, standard output holds exactly one line: the JSON object with
  the key \<^verbatim>\<open>symbols\<close> first and the key \<^verbatim>\<open>commands\<close> second and no other key, and the
  exit status is 0. That the encoder of a value writes no raw newline is a property of
  \<^verbatim>\<open>json.dumps\<close> without \<^verbatim>\<open>indent\<close>, taken as a hypothesis.
\<close>

theorem compact_single_line:
  assumes "2 < length argv" and "argv ! 2 \<noteq> ''true''"
    and "parseFile ext (argv ! 1) = PyTuple [c, s]"
    and "encode ext s = Inr S" and "encode ext c = Inr C"
    and "CHR 0x0A \<notin> set S" and "CHR 0x0A \<notin> set C"
  shows \<open>stdout (main ext argv) =
           ''{"symbols": '' @ S @ '', "commands": '' @ C @ ''}'' @ [CHR 0x0A]
       \<and> output_lines (stdout (main ext argv)) =
           [''{"symbols": '' @ S @ '', "commands": '' @ C @ ''}'']
       \<and> exit_status (main ext argv) = 0\<close>
proof -
  let ?line = \<open>''{"symbols": '' @ S @ '', "commands": '' @ C @ ''}''\<close>
  have run: "main ext argv =
      \<lparr>stdout = ?line @ [CHR 0x0A],
       calls = [ParseFile (argv ! 1), Dumps [(''symbols'', s), (''commands'', c)]],
       uncaught = None\<rparr>"
    using assms(1,2) main_pair_ok [OF _ assms(3,4,5)]
    by (simp add: debug_mode_def subscript_def effect_defs)
  have "CHR 0x0A \<notin> set ?line"
    using assms(6,7) by simp
  then have "output_lines (?line @ [CHR 0x0A]) = [?line]"
    by (rule output_lines_single)
  with run show ?thesis
    by (simp add: exit_status_def)
qed

theorem compact_single_line_witness:
  \<open>stdout (main example_ext [''main.py'', ''ok.mdl'', ''false'']) =
       ''{"symbols": {}, "commands": [1, 2]}'' @ [CHR 0x0A]
   \<and> output_lines (stdout (main example_ext [''main.py'', ''ok.mdl'', ''false''])) =
       [''{"symbols": {}, "commands": [1, 2]}'']
   \<and> exit_status (main example_ext [''main.py'', ''ok.mdl'', ''false'']) = 0\<close>
proof -
  have h: "2 < length [''main.py'', ''ok.mdl'', ''false'']"
    "[''main.py'', ''ok.mdl'', ''false''] ! 2 \<noteq> ''true''"
    "parseFile example_ext ([''main.py'', ''ok.mdl'', ''false''] ! 1) = PyTuple [''[1, 2]'', ''{}'']"
    "encode example_ext ''{}'' = Inr ''{}''"
    "encode example_ext ''[1, 2]'' = Inr ''[1, 2]''"
    "CHR 0x0A \<notin> set ''{}''" "CHR 0x0A \<notin> set ''[1, 2]''"
    by (simp_all add: example_defs)
  show ?thesis
    using compact_single_line [OF h] by auto
qed

text \<open>
  Claim C5. For a file the parser accepts, the run with the flag \<^verbatim>\<open>true\<close> writes what
  the run with any other flag writes, and after it the pretty-printer's rendering of
  the same dictionary: the one \<^verbatim>\<open>json.dumps\<close> was given, holding the parser's
  \<^verbatim>\<open>symbols\<close> and \<^verbatim>\<open>commands\<close>. Line by line, the first line is the compact JSON line in
  both runs, and the lines that follow it are the lines of the rendering. Both runs
  end with exit status 0.
\<close>

theorem debug_output_extends_compact:
  assumes "2 < length argv" and "argv ! 2 \<noteq> ''true''"
    and "2 < length argv'" and "argv' ! 2 = ''true''" and "argv' ! 1 = argv ! 1"
    and "parseFile ext (argv ! 1) = PyTuple [c, s]"
    and "encode ext s = Inr S" and "encode ext c = Inr C"
    and "CHR 0x0A \<notin> set S" and "CHR 0x0A \<notin> set C"
  shows \<open>stdout (main ext argv) =
           ''{"symbols": '' @ S @ '', "commands": '' @ C @ ''}'' @ [CHR 0x0A]
       \<and> stdout (main ext argv') =
           stdout (main ext argv) @ pformat ext [(''symbols'', s), (''commands'', c)] @ [CHR 0x0A]
       \<and> output_lines (stdout (main ext argv')) =
           output_lines (stdout (main ext argv))
             @ output_lines (pformat ext [(''symbols'', s), (''commands'', c)] @ [CHR 0x0A])
       \<and> calls (main ext argv) =
           [ParseFile (argv ! 1), Dumps [(''symbols'', s), (''commands'', c)]]
       \<and> calls (main ext argv') =
           calls (main ext argv) @ [Pprint [(''symbols'', s), (''commands'', c)]]
       \<and> exit_status (main ext argv) = 0 \<and> exit_status (main ext argv') = 0\<close>
proof -
  let ?w = "[(''symbols'', s), (''commands'', c)]"
  define line where \<open>line = ''{"symbols": '' @ S @ '', "commands": '' @ C @ ''}''\<close>
  have off: "1 < length argv" and on: "1 < length argv'"
    using assms(1,3) by simp_all
  have p': "parseFile ext (argv' ! 1) = PyTuple [c, s]"
    using assms(5,6) by simp
  have run: "main ext argv =
      \<lparr>stdout = line @ [CHR 0x0A], calls = [ParseFile (argv ! 1), Dumps ?w],
       uncaught = None\<rparr>"
    by (simp add: main_pair_ok [OF off assms(6,7,8)] debug_mode_off [OF assms(1,2)]
        effect_defs line_def)
  have run': "main ext argv' =
      \<lparr>stdout = line @ CHR 0x0A # pformat ext ?w @ [CHR 0x0A],
       calls = [ParseFile (argv ! 1), Dumps ?w, Pprint ?w], uncaught = None\<rparr>"
    using assms(5)
    by (simp add: main_pair_ok [OF on p' assms(7,8)] debug_mode_on [OF assms(3,4)]
        effect_defs line_def)
  have nl: "CHR 0x0A \<notin> set line"
    using assms(9,10) by (simp add: line_def)
  have l1: "output_lines (line @ [CHR 0x0A]) = [line]"
    using nl by (rule output_lines_single)
  have l2: "output_lines (line @ CHR 0x0A # pformat ext ?w @ [CHR 0x0A]) =
      line # output_lines (pformat ext ?w @ [CHR 0x0A])"
    using nl by (rule output_lines_first)
  have f1: \<open>stdout (main ext argv) =
      ''{"symbols": '' @ S @ '', "commands": '' @ C @ ''}'' @ [CHR 0x0A]\<close>
    by (simp add: run line_def)
  have f2: "stdout (main ext argv') = stdout (main ext argv) @ pformat ext ?w @ [CHR 0x0A]"
    by (simp add: run run')
  have f3: "output_lines (stdout (main ext argv')) =
      output_lines (stdout (main ext argv)) @ output_lines (pformat ext ?w @ [CHR 0x0A])"
    by (simp add: run run' l1 l2)
  have f4: "calls (main ext argv) = [ParseFile (argv ! 1), Dumps ?w]"
    by (simp add: run)
  have f5: "calls (main ext argv') = calls (main ext argv) @ [Pprint ?w]"
    by (simp add: run run')
  have f6: "exit_status (main ext argv) = 0" and f7: "exit_status (main ext argv') = 0"
    by (simp_all add: run run' exit_status_def)
  from f1 f2 f3 f4 f5 f6 f7 show ?thesis
    by (intro conjI)
qed

theorem debug_output_extends_compact_witness:
  \<open>stdout (main example_ext [''main.py'', ''ok.mdl'', ''false'']) =
       ''{"symbols": {}, "commands": [1, 2]}'' @ [CHR 0x0A]
   \<and> stdout (main example_ext [''main.py'', ''ok.mdl'', ''true'']) =
       stdout (main example_ext [''main.py'', ''ok.mdl'', ''false''])
         @ ''symbols = {};commands = [1, 2];'' @ [CHR 0x0A]
   \<and> calls (main example_ext [''main.py'', ''ok.mdl'', ''true'']) =
       calls (main example_ext [''main.py'', ''ok.mdl'', ''false''])
         @ [Pprint [(''symbols'', ''{}''), (''commands'', ''[1, 2]'')]]\<close>
proof -
  have h: "2 < length [''main.py'', ''ok.mdl'', ''false'']"
    "[''main.py'', ''ok.mdl'', ''false''] ! 2 \<noteq> ''true''"
    "2 < length [''main.py'', ''ok.mdl'', ''true'']"
    "[''main.py'', ''ok.mdl'', ''true''] ! 2 = ''true''"
    "[''main.py'', ''ok.mdl'', ''true''] ! 1 = [''main.py'', ''ok.mdl'', ''false''] ! 1"
    "parseFile example_ext ([''main.py'', ''ok.mdl'', ''false''] ! 1) = PyTuple [''[1, 2]'', ''{}'']"
    "encode example_ext ''{}'' = Inr ''{}''"
    "encode example_ext ''[1, 2]'' = Inr ''[1, 2]''"
    "CHR 0x0A \<notin> set ''{}''" "CHR 0x0A \<notin> set ''[1, 2]''"
    by (simp_all add: example_defs)
  have "pformat example_ext [(''symbols'', ''{}''), (''commands'', ''[1, 2]'')] =
      ''symbols = {};commands = [1, 2];''"
    by (simp add: example_defs)
  then show ?thesis
    using debug_output_extends_compact [OF h] by auto
qed

text \<open>
  Claim C7. After a successful parse the dictionary the script builds, serialises and
  (in debug mode) pretty-prints maps \<^verbatim>\<open>symbols\<close> and \<^verbatim>\<open>commands\<close> to exactly the two values
  of the parser's pair: the branch binds them as they are, the dictionary display reads
  them as they are, and \<^verbatim>\<open>json.dumps\<close> and \<^verbatim>\<open>pprint.pprint\<close> are the only calls that
  follow the parser's. The script is polymorphic in the type of the values, so it has
  no operation with which it could look into one or change it.
\<close>

theorem wrapper_holds_parser_values:
  assumes "1 < length argv" and "parseFile ext (argv ! 1) = PyTuple [c, s]"
  shows "bind_names (parseFile ext (argv ! 1)) (called (ParseFile (argv ! 1)) start) =
           Inr (\<lparr>commands = Some c, symbols = Some s\<rparr>, called (ParseFile (argv ! 1)) start)
       \<and> build_wrapper \<lparr>commands = Some c, symbols = Some s\<rparr> =
           Inr [(''symbols'', s), (''commands'', c)]
       \<and> (calls (main ext argv) =
            [ParseFile (argv ! 1), Dumps [(''symbols'', s), (''commands'', c)]]
          \<or> calls (main ext argv) =
            [ParseFile (argv ! 1), Dumps [(''symbols'', s), (''commands'', c)],
             Pprint [(''symbols'', s), (''commands'', c)]])"
proof -
  have "calls (main ext argv) =
            [ParseFile (argv ! 1), Dumps [(''symbols'', s), (''commands'', c)]]
          \<or> calls (main ext argv) =
            [ParseFile (argv ! 1), Dumps [(''symbols'', s), (''commands'', c)],
             Pprint [(''symbols'', s), (''commands'', c)]]"
    by (auto simp add: main_pair [OF assms] print_json_def debug_mode_def subscript_def
        pprint_def effect_defs split: sum.splits)
  then show ?thesis
    using assms(2) by (simp add: bind_names_def build_wrapper_def)
qed

theorem wrapper_holds_parser_values_witness:
  "calls (main example_ext [''main.py'', ''set.mdl'', ''true'']) =
     [ParseFile ''set.mdl'', Dumps [(''symbols'', ''set()''), (''commands'', ''[]'')]]"
proof -
  have h: "1 < length [''main.py'', ''set.mdl'', ''true'']"
    "parseFile example_ext ([''main.py'', ''set.mdl'', ''true''] ! 1) = PyTuple [''[]'', ''set()'']"
    by (simp_all add: example_defs)
  have "\<not> debug_rendered (main example_ext [''main.py'', ''set.mdl'', ''true''])"
    by (simp add: run_defs effect_defs example_defs)
  then show ?thesis
    using wrapper_holds_parser_values [OF h] by (auto simp add: debug_rendered_def)
qed

subsection \<open>Two runs on the same file\<close>

text \<open>
  Claim C6. Let the parser be a function of the contents of the file it is given, and
  take two runs with the same argument list on two file systems that agree on the file
  named by the first argument (and may differ anywhere else). If the grammar accepts
  that file, both runs write the same compact JSON line, the one built from the
  file's \<^verbatim>\<open>symbols\<close> and \<^verbatim>\<open>commands\<close>, followed in debug mode by the same rendering; if it
  rejects the file, both write the diagnostic line and nothing else. In every case the
  two runs are equal: the same output, the same calls, the same end.
\<close>

theorem same_file_same_output:
  assumes "1 < length argv \<longrightarrow> files (argv ! 1) = files' (argv ! 1)"
  shows \<open>(1 < length argv \<and> grammar (files (argv ! 1)) = PyTuple [c, s]
          \<and> encode ext s = Inr S \<and> encode ext c = Inr C \<longrightarrow>
          stdout (main (ext\<lparr>parseFile := reading grammar files\<rparr>) argv) =
            ''{"symbols": '' @ S @ '', "commands": '' @ C @ ''}'' @ [CHR 0x0A]
              @ (if 2 < length argv \<and> argv ! 2 = ''true''
                 then pformat ext [(''symbols'', s), (''commands'', c)] @ [CHR 0x0A] else [])
          \<and> stdout (main (ext\<lparr>parseFile := reading grammar files'\<rparr>) argv) =
            ''{"symbols": '' @ S @ '', "commands": '' @ C @ ''}'' @ [CHR 0x0A]
              @ (if 2 < length argv \<and> argv ! 2 = ''true''
                 then pformat ext [(''symbols'', s), (''commands'', c)] @ [CHR 0x0A] else []))
       \<and> (1 < length argv \<and> \<not> truthy (grammar (files (argv ! 1))) \<longrightarrow>
          stdout (main (ext\<lparr>parseFile := reading grammar files\<rparr>) argv) =
            ''Failed to parse'' @ [CHR 0x0A]
          \<and> stdout (main (ext\<lparr>parseFile := reading grammar files'\<rparr>) argv) =
            ''Failed to parse'' @ [CHR 0x0A])
       \<and> main (ext\<lparr>parseFile := reading grammar files\<rparr>) argv =
         main (ext\<lparr>parseFile := reading grammar files'\<rparr>) argv\<close>
proof -
  let ?e = "ext\<lparr>parseFile := reading grammar files\<rparr>"
  let ?e' = "ext\<lparr>parseFile := reading grammar files'\<rparr>"
  have same: "main ?e argv = main ?e' argv"
    using assms by (intro main_cong) (simp_all add: reading_def)
  have ok: \<open>stdout (main ?e argv) =
      ''{"symbols": '' @ S @ '', "commands": '' @ C @ ''}'' @ [CHR 0x0A]
        @ (if 2 < length argv \<and> argv ! 2 = ''true''
           then pformat ext [(''symbols'', s), (''commands'', c)] @ [CHR 0x0A] else [])\<close>
    if "1 < length argv \<and> grammar (files (argv ! 1)) = PyTuple [c, s]
          \<and> encode ext s = Inr S \<and> encode ext c = Inr C"
    using that main_pair_stdout [of argv ?e c s S C] by (simp add: reading_def)
  have bad: "stdout (main ?e argv) = ''Failed to parse'' @ [CHR 0x0A]"
    if "1 < length argv \<and> \<not> truthy (grammar (files (argv ! 1)))"
    using that main_falsy [of argv ?e] by (simp add: reading_def effect_defs)
  show ?thesis
    using ok bad unfolding same [symmetric] by blast
qed

theorem same_file_same_output_witness:
  \<open>disk_a ''other.mdl'' \<noteq> disk_b ''other.mdl''
   \<and> stdout (main (example_ext\<lparr>parseFile := reading example_grammar disk_a\<rparr>)
        [''main.py'', ''ok.mdl'', ''false'']) = ''{"symbols": {}, "commands": [1, 2]}'' @ [CHR 0x0A]
   \<and> stdout (main (example_ext\<lparr>parseFile := reading example_grammar disk_b\<rparr>)
        [''main.py'', ''ok.mdl'', ''false'']) = ''{"symbols": {}, "commands": [1, 2]}'' @ [CHR 0x0A]
   \<and> stdout (main (example_ext\<lparr>parseFile := reading example_grammar disk_a\<rparr>)
        [''main.py'', ''none.mdl'', ''false'']) = ''Failed to parse'' @ [CHR 0x0A]
   \<and> stdout (main (example_ext\<lparr>parseFile := reading example_grammar disk_b\<rparr>)
        [''main.py'', ''none.mdl'', ''false'']) = ''Failed to parse'' @ [CHR 0x0A]\<close>
proof -
  have far: "disk_a ''other.mdl'' \<noteq> disk_b ''other.mdl''"
    by (simp add: disk_a_def disk_b_def)
  have h: "1 < length [''main.py'', ''ok.mdl'', ''false''] \<longrightarrow>
      disk_a ([''main.py'', ''ok.mdl'', ''false''] ! 1) = disk_b ([''main.py'', ''ok.mdl'', ''false''] ! 1)"
    and h': "1 < length [''main.py'', ''none.mdl'', ''false''] \<longrightarrow>
      disk_a ([''main.py'', ''none.mdl'', ''false''] ! 1) = disk_b ([''main.py'', ''none.mdl'', ''false''] ! 1)"
    by (simp_all add: disk_a_def disk_b_def)
  have g: "1 < length [''main.py'', ''ok.mdl'', ''false'']
      \<and> example_grammar (disk_a ([''main.py'', ''ok.mdl'', ''false''] ! 1)) = PyTuple [''[1, 2]'', ''{}'']
      \<and> encode example_ext ''{}'' = Inr ''{}'' \<and> encode example_ext ''[1, 2]'' = Inr ''[1, 2]''"
    and g': "1 < length [''main.py'', ''none.mdl'', ''false'']
      \<and> \<not> truthy (example_grammar (disk_a ([''main.py'', ''none.mdl'', ''false''] ! 1)))"
    by (simp_all add: example_defs example_grammar_def disk_a_def)
  note ok = same_file_same_output
      [where argv = "[''main.py'', ''ok.mdl'', ''false'']" and files = disk_a and files' = disk_b
        and ext = example_ext and grammar = example_grammar and c = "''[1, 2]''" and s = "''{}''"
        and S = "''{}''" and C = "''[1, 2]''", OF h, THEN conjunct1, rule_format, OF g]
  note bad = same_file_same_output
      [where argv = "[''main.py'', ''none.mdl'', ''false'']" and files = disk_a and files' = disk_b
        and ext = example_ext and grammar = example_grammar,
        OF h', THEN conjunct2, THEN conjunct1, rule_format, OF g']
  show ?thesis
    using far ok bad by auto
qed

subsection \<open>The rejected file\<close>

text \<open>
  Claim C2. When a path is given and the parser's result for it is falsy, standard
  output holds the line \<^verbatim>\<open>Failed to parse\<close> and nothing else, \<^verbatim>\<open>json.dumps\<close> is never
  called (the parser's call is the only external call of the run), and the exit status
  is not 0.
\<close>

theorem rejected_file_reported:
  assumes "1 < length argv" and "\<not> truthy (parseFile ext (argv ! 1))"
  shows "stdout (main ext argv) = ''Failed to parse'' @ [CHR 0x0A]
       \<and> calls (main ext argv) = [ParseFile (argv ! 1)]
       \<and> exit_status (main ext argv) \<noteq> 0"
  by (simp add: main_falsy [OF assms] effect_defs exit_status_def)

theorem rejected_file_reported_witness:
  "stdout (main example_ext [''main.py'', ''bad.mdl'', ''false'']) = ''Failed to parse'' @ [CHR 0x0A]
   \<and> calls (main example_ext [''main.py'', ''bad.mdl'', ''false'']) = [ParseFile ''bad.mdl'']
   \<and> exit_status (main example_ext [''main.py'', ''bad.mdl'', ''false'']) \<noteq> 0"
proof -
  have h: "1 < length [''main.py'', ''bad.mdl'', ''false'']"
    "\<not> truthy (parseFile example_ext ([''main.py'', ''bad.mdl'', ''false''] ! 1))"
    by (simp_all add: example_defs)
  show ?thesis
    using rejected_file_reported [OF h] by simp
qed

text \<open>
  Claim C9. On a falsy result the \<^verbatim>\<open>else\<close> branch prints the diagnostic and binds
  neither name; the script goes on to the dictionary display, whose first value reads
  the unbound name \<^verbatim>\<open>symbols\<close>. The run ends there with an uncaught \<^verbatim>\<open>NameError\<close>, exit
  status 1, the diagnostic being all that was written.
\<close>

theorem rejected_file_name_error:
  fixes ext :: "'v externals"
  assumes "1 < length argv" and "\<not> truthy (parseFile ext (argv ! 1))"
  shows "bind_names (parseFile ext (argv ! 1)) (called (ParseFile (argv ! 1)) start) =
           Inr (\<lparr>commands = None, symbols = None\<rparr>,
                py_print ''Failed to parse'' (called (ParseFile (argv ! 1)) start))
       \<and> build_wrapper (\<lparr>commands = None, symbols = None\<rparr> :: 'v globals) =
           Inl (NameError ''symbols'')
       \<and> uncaught (main ext argv) = Some (NameError ''symbols'')
       \<and> stdout (main ext argv) = ''Failed to parse'' @ [CHR 0x0A]
       \<and> exit_status (main ext argv) = 1"
  using assms(2)
  by (simp add: main_falsy [OF assms] bind_names_def build_wrapper_def effect_defs
      exit_status_def)

theorem rejected_file_name_error_witness:
  "uncaught (main example_ext [''main.py'', ''bad.mdl'', ''true'']) = Some (NameError ''symbols'')
   \<and> stdout (main example_ext [''main.py'', ''bad.mdl'', ''true'']) = ''Failed to parse'' @ [CHR 0x0A]
   \<and> exit_status (main example_ext [''main.py'', ''bad.mdl'', ''true'']) = 1"
proof -
  have h: "1 < length [''main.py'', ''bad.mdl'', ''true'']"
    "\<not> truthy (parseFile example_ext ([''main.py'', ''bad.mdl'', ''true''] ! 1))"
    by (simp_all add: example_defs)
  show ?thesis
    using rejected_file_name_error [OF h] by simp
qed

subsection \<open>Missing arguments\<close>




text \<open>
  Claim C10. With the path as the only positional argument and a file the parser
  accepts (its values serialisable), the JSON line is written in full, newline
  included, and only then does line 22 raise the uncaught \<^verbatim>\<open>IndexError\<close>; the
  pretty-printer is not reached.
\<close>

theorem json_written_before_index_error:
  assumes "length argv = 2"
    and "parseFile ext (argv ! 1) = PyTuple [c, s]"
    and "encode ext s = Inr S" and "encode ext c = Inr C"
  shows \<open>stdout (main ext argv) =
           ''{"symbols": '' @ S @ '', "commands": '' @ C @ ''}'' @ [CHR 0x0A]
       \<and> uncaught (main ext argv) = Some IndexError
       \<and> calls (main ext argv) =
           [ParseFile (argv ! 1), Dumps [(''symbols'', s), (''commands'', c)]]\<close>
  using assms(1) main_pair_ok [OF _ assms(2,3,4)]
  by (simp add: debug_mode_def subscript_def effect_defs)

theorem json_written_before_index_error_witness:
  \<open>stdout (main example_ext [''main.py'', ''ok.mdl'']) =
       ''{"symbols": {}, "commands": [1, 2]}'' @ [CHR 0x0A]
   \<and> uncaught (main example_ext [''main.py'', ''ok.mdl'']) = Some IndexError
   \<and> calls (main example_ext [''main.py'', ''ok.mdl'']) =
       [ParseFile ''ok.mdl'', Dumps [(''symbols'', ''{}''), (''commands'', ''[1, 2]'')]]\<close>
proof -
  have h: "length [''main.py'', ''ok.mdl''] = 2"
    "parseFile example_ext ([''main.py'', ''ok.mdl''] ! 1) = PyTuple [''[1, 2]'', ''{}'']"
    "encode example_ext ''{}'' = Inr ''{}''"
    "encode example_ext ''[1, 2]'' = Inr ''[1, 2]''"
    by (simp_all add: example_defs)
  show ?thesis
    using json_written_before_index_error [OF h] by simp
qed

subsection \<open>The debug flag\<close>

text \<open>
  Claim C4, as the script has it. In a run whose parse succeeded and whose document
  serialised, the debug rendering is written if and only if the second argument is
  present and is the string \<^verbatim>\<open>true\<close>, compared character by character. In every run
  whatsoever, a rendering is written only if the second argument is that string.
\<close>

theorem debug_rendering_iff_literal_true:
  "(1 < length argv \<and> parseFile ext (argv ! 1) = PyTuple [c, s]
      \<and> encode ext s = Inr S \<and> encode ext c = Inr C
      \<longrightarrow> (debug_rendered (main ext argv) \<longleftrightarrow> 2 < length argv \<and> argv ! 2 = ''true''))
   \<and> (debug_rendered (main ext argv) \<longrightarrow> 2 < length argv \<and> argv ! 2 = ''true'')"
proof (rule conjI; rule impI)
  assume h: "1 < length argv \<and> parseFile ext (argv ! 1) = PyTuple [c, s]
      \<and> encode ext s = Inr S \<and> encode ext c = Inr C"
  then show "debug_rendered (main ext argv) \<longleftrightarrow> 2 < length argv \<and> argv ! 2 = ''true''"
    using main_pair_rendered [of argv ext c s S C] by blast
next
  assume "debug_rendered (main ext argv)"
  then show "2 < length argv \<and> argv ! 2 = ''true''"
    by (rule main_rendered_only_if)
qed

theorem debug_rendering_iff_literal_true_witness:
  "debug_rendered (main example_ext [''main.py'', ''ok.mdl'', ''true''])
   \<and> \<not> debug_rendered (main example_ext [''main.py'', ''ok.mdl'', ''True''])
   \<and> \<not> debug_rendered (main example_ext [''main.py'', ''ok.mdl''])"
  using
    debug_rendering_iff_literal_true
      [of "[''main.py'', ''ok.mdl'', ''true'']" example_ext "''[1, 2]''" "''{}''" "''{}''" "''[1, 2]''"]
    debug_rendering_iff_literal_true
      [of "[''main.py'', ''ok.mdl'', ''True'']" example_ext "''[1, 2]''" "''{}''" "''{}''" "''[1, 2]''"]
    debug_rendering_iff_literal_true
      [of "[''main.py'', ''ok.mdl'']" example_ext "''[1, 2]''" "''{}''" "''{}''" "''[1, 2]''"]
  by (simp add: example_defs)

text \<open>
  The run \<^verbatim>\<open>main.py bad.mdl true\<close> has the second argument \<^verbatim>\<open>true\<close> and writes no
  rendering: the parser rejects the file and the run ends before line 22.
\<close>

theorem debug_rendering_counterexample:
  "[''main.py'', ''bad.mdl'', ''true''] ! 2 = ''true''
   \<and> \<not> debug_rendered (main example_ext [''main.py'', ''bad.mdl'', ''true''])"
  by (simp add: run_defs effect_defs example_defs)

subsection \<open>One call of the parser\<close>

text \<open>
  Claim C8, as the script has it. The parser is called exactly once in every run that
  is given a path, and not at all in a run that is not (line 6 fails first); it is
  never called twice. A falsy result ends the run: no other external call follows the
  parser's, and the run ends with an exception.
\<close>

theorem parser_called_once_given_path:
  "parser_calls (main ext argv) = (if 1 < length argv then 1 else 0)
   \<and> (1 < length argv \<and> \<not> truthy (parseFile ext (argv ! 1)) \<longrightarrow>
        calls (main ext argv) = [ParseFile (argv ! 1)] \<and> uncaught (main ext argv) \<noteq> None)"
proof (rule conjI)
  show "parser_calls (main ext argv) = (if 1 < length argv then 1 else 0)"
  proof (cases "1 < length argv")
    case True
    from main_calls [OF this] obtain ds
      where "calls (main ext argv) = ParseFile (argv ! 1) # ds" and "filter is_parse ds = []"
      by blast
    with True show ?thesis
      by (simp add: parser_calls_def)
  next
    case False
    then show ?thesis
      by (simp add: main_no_path parser_calls_def effect_defs)
  qed
next
  show "1 < length argv \<and> \<not> truthy (parseFile ext (argv ! 1)) \<longrightarrow>
        calls (main ext argv) = [ParseFile (argv ! 1)] \<and> uncaught (main ext argv) \<noteq> None"
    by (simp add: main_falsy effect_defs)
qed

theorem parser_called_once_given_path_witness:
  "parser_calls (main example_ext [''main.py'', ''ok.mdl'', ''true'']) = 1
   \<and> calls (main example_ext [''main.py'', ''bad.mdl'', ''true'']) = [ParseFile ''bad.mdl'']
   \<and> uncaught (main example_ext [''main.py'', ''bad.mdl'', ''true'']) \<noteq> None"
  using parser_called_once_given_path [of example_ext "[''main.py'', ''ok.mdl'', ''true'']"]
    parser_called_once_given_path [of example_ext "[''main.py'', ''bad.mdl'', ''true'']"]
  by (simp add: example_defs)

text \<open>The run \<^verbatim>\<open>main.py\<close>, without a path, never calls the parser.\<close>

theorem parser_called_once_counterexample:
  "parser_calls (main example_ext [''main.py'']) = 0
   \<and> calls (main example_ext [''main.py'']) = []
   \<and> uncaught (main example_ext [''main.py'']) = Some IndexError"
  by (simp add: run_defs effect_defs)

end
